theory Spec2Isabelle
  imports Main "HOL-Library.Sublist" "HOL-Library.Char_ord" "HOL-Library.List_Lexorder"
    "HOL-Library.Multiset"
begin

section \<open>0RG: an interactive wizard around rclone\<close>

text \<open>
  The program (\<^verbatim>\<open>src/0RG.py\<close>) reads lines from the terminal, queries the filesystem and
  starts \<^verbatim>\<open>rclone\<close> as a subprocess. The embedding makes these effects explicit:
  \<^item> the lines the user will type are a list (\<open>stdin\<close>); \<^verbatim>\<open>input()\<close> takes the head and
    raises \<^verbatim>\<open>EOFError\<close> on the empty list;
  \<^item> every \<^verbatim>\<open>rclone\<close> invocation is appended to a \<open>trace\<close>, and its result is read from an
    environment function of the trace so far and the argument vector;
  \<^item> the filesystem is a part of the environment and stays as it is during a run;
  \<^item> \<^verbatim>\<open>SystemExit\<close>, an uncaught exception and an early \<^verbatim>\<open>return\<close> of \<^verbatim>\<open>main\<close> are values of
    the type \<open>stop\<close>.
  Printing, colours and \<^verbatim>\<open>clear()\<close> only write to the terminal and are left out, and so is
  the interrupt from the keyboard, which can arrive at any moment.
  Texts are lists of 8-bit characters and the string operations are those of Python on
  ASCII text: characters above 127 are not letters, digits or white space here.
\<close>

subsection \<open>String operations\<close>

definition is_upper :: "char \<Rightarrow> bool" where
  "is_upper c = (CHR ''A'' \<le> c \<and> c \<le> CHR ''Z'')"

text \<open>An upper-case ASCII letter and its lower-case letter differ in bit 5 (value 32).\<close>

fun lower_char :: "char \<Rightarrow> char" where
  "lower_char (Char b0 b1 b2 b3 b4 b5 b6 b7) =
     (if is_upper (Char b0 b1 b2 b3 b4 b5 b6 b7) then Char b0 b1 b2 b3 b4 True b6 b7
      else Char b0 b1 b2 b3 b4 b5 b6 b7)"

text \<open>\<^verbatim>\<open>s.lower()\<close>\<close>

definition lower :: "string \<Rightarrow> string" where
  "lower s = map lower_char s"

text \<open>The ASCII characters for which \<^verbatim>\<open>str.isspace\<close> holds: 9 to 13, 28 to 31 and 32.\<close>

definition is_space :: "char \<Rightarrow> bool" where
  "is_space c = (c \<in> set [CHR 0x09, CHR 0x0A, CHR 0x0B, CHR 0x0C, CHR 0x0D,
                          CHR 0x1C, CHR 0x1D, CHR 0x1E, CHR 0x1F, CHR '' ''])"

definition strip_with :: "(char \<Rightarrow> bool) \<Rightarrow> string \<Rightarrow> string" where
  "strip_with P s = rev (dropWhile P (rev (dropWhile P s)))"

text \<open>\<^verbatim>\<open>s.strip()\<close>, \<^verbatim>\<open>s.strip(cs)\<close> and \<^verbatim>\<open>s.rstrip(cs)\<close>\<close>

definition strip :: "string \<Rightarrow> string" where
  "strip s = strip_with is_space s"

definition strip_chars :: "string \<Rightarrow> string \<Rightarrow> string" where
  "strip_chars cs s = strip_with (\<lambda>c. c \<in> set cs) s"

definition rstrip_chars :: "string \<Rightarrow> string \<Rightarrow> string" where
  "rstrip_chars cs s = rev (dropWhile (\<lambda>c. c \<in> set cs) (rev s))"

definition is_digit :: "char \<Rightarrow> bool" where
  "is_digit c = (CHR ''0'' \<le> c \<and> c \<le> CHR ''9'')"

text \<open>\<^verbatim>\<open>s.isdigit()\<close>: not empty, and digits only.\<close>

definition isdigit :: "string \<Rightarrow> bool" where
  "isdigit s = (s \<noteq> [] \<and> list_all is_digit s)"

definition digit_val :: "char \<Rightarrow> nat" where
  "digit_val c = of_char c - 48"

text \<open>\<^verbatim>\<open>int(s)\<close> for a string of digits.\<close>

definition int_of_digits :: "string \<Rightarrow> nat" where
  "int_of_digits s = foldl (\<lambda>n c. 10 * n + digit_val c) 0 s"

definition is_linebreak :: "char \<Rightarrow> bool" where
  "is_linebreak c = (c \<in> set [CHR 0x0A, CHR 0x0B, CHR 0x0C, CHR 0x0D, CHR 0x1C, CHR 0x1D, CHR 0x1E])"

text \<open>
  \<^verbatim>\<open>s.splitlines()\<close>: the first argument holds the current line, reversed. A carriage
  return followed by a line feed is one line break; a last line that is empty is dropped.
\<close>

fun splitlines_acc :: "string \<Rightarrow> string \<Rightarrow> string list" where
  "splitlines_acc acc [] = (if acc = [] then [] else [rev acc])"
| "splitlines_acc acc [c] = (if is_linebreak c then [rev acc] else [rev (c # acc)])"
| "splitlines_acc acc (c # d # cs) =
     (if c = CHR 0x0D \<and> d = CHR 0x0A then rev acc # splitlines_acc [] cs
      else if is_linebreak c then rev acc # splitlines_acc [] (d # cs)
      else splitlines_acc (c # acc) (d # cs))"

definition splitlines :: "string \<Rightarrow> string list" where
  "splitlines s = splitlines_acc [] s"

subsection \<open>Outcomes, the environment and the state\<close>

datatype exn = EOFError | OSError | IndexError | CalledProcessError int string

text \<open>
  How a call ends when it does not return a value: \<open>Return\<close> is an early \<^verbatim>\<open>return\<close> of
  \<^verbatim>\<open>main\<close> (and its normal end), \<open>SystemExit n\<close> is \<^verbatim>\<open>raise SystemExit(n)\<close>, \<open>Raise e\<close> an
  exception that nothing catches.
\<close>

datatype stop = Return | SystemExit int | Raise exn

text \<open>
  The exit status of the process. \<^verbatim>\<open>SystemExit(n)\<close> ends the process with the low eight bits
  of \<open>n\<close>: a subprocess killed by signal 15 has the return code \<open>-15\<close>, and
  \<^verbatim>\<open>SystemExit(-15)\<close> gives the status 241. An uncaught exception ends Python with status 1.
\<close>

fun exit_status :: "stop \<Rightarrow> int" where
  "exit_status Return = 0"
| "exit_status (SystemExit n) = n mod 256"
| "exit_status (Raise e) = 1"

text \<open>
  A subprocess either exits with a code and the text it wrote (standard output and
  standard error together), or could not be started (\<^verbatim>\<open>OSError\<close>).
\<close>

datatype proc = Exited int string | NotStarted

text \<open>\<^verbatim>\<open>pathlib.Path\<close>: the root (\<open>''''\<close> for a relative path) and the components.\<close>

record path =
  root :: string
  parts :: "string list"

record date =
  year :: nat
  month :: nat
  day :: nat

text \<open>
  The environment of a run. \<open>fs_iterdir\<close> gives the entry names of a directory, or \<open>None\<close>
  when reading it raises. \<open>fs_is_dir\<close> and \<open>fs_exists\<close> are \<^verbatim>\<open>p.is_dir()\<close> and \<^verbatim>\<open>p.exists()\<close>:
  \<open>None\<close> when the query raises \<^verbatim>\<open>OSError\<close> (pathlib answers \<^verbatim>\<open>False\<close> for a missing path
  and raises for any other error, such as a denied permission or an I/O error).
  \<open>str_lower\<close> is \<^verbatim>\<open>str.lower\<close> on the names of the filesystem, which need not be ASCII: the
  case tables are those of the Python runtime, and on ASCII text it is \<open>lower\<close>.
\<close>

record env =
  which_rclone :: "string option"
  run :: "string list list \<Rightarrow> string list \<Rightarrow> proc"
  fs_iterdir :: "path \<Rightarrow> string list option"
  fs_is_dir :: "path \<Rightarrow> bool option"
  fs_exists :: "path \<Rightarrow> bool option"
  str_lower :: "string \<Rightarrow> string"
  home :: path
  expand :: "string \<Rightarrow> string"
  now :: date

record state =
  stdin :: "string list"
  trace :: "string list list"

definition on_stdin ::
  "(string list \<Rightarrow> (stop + 'a) \<times> string list) \<Rightarrow> state \<Rightarrow> (stop + 'a) \<times> state" where
  "on_stdin f st = (case f (stdin st) of (r, ls) \<Rightarrow> (r, st\<lparr>stdin := ls\<rparr>))"

text \<open>Start a subprocess: the invocation is recorded, the environment gives its result.\<close>

definition call_proc :: "env \<Rightarrow> string list \<Rightarrow> state \<Rightarrow> proc \<times> state" where
  "call_proc e args st = (run e (trace st) args, st\<lparr>trace := trace st @ [args]\<rparr>)"

text \<open>Sequencing: the second step runs only when the first returned a value.\<close>

definition then_do ::
  "('s \<Rightarrow> (stop + 'a) \<times> 's) \<Rightarrow> ('a \<Rightarrow> 's \<Rightarrow> (stop + 'b) \<times> 's) \<Rightarrow> 's \<Rightarrow> (stop + 'b) \<times> 's" where
  "then_do m f s = (case m s of (Inl e, s') \<Rightarrow> (Inl e, s') | (Inr a, s') \<Rightarrow> f a s')"

subsection \<open>Prompts\<close>

text \<open>\<^verbatim>\<open>input(...)\<close>\<close>

definition input_line :: "string list \<Rightarrow> (stop + string) \<times> string list" where
  "input_line ls = (case ls of [] \<Rightarrow> (Inl (Raise EOFError), []) | l # ls' \<Rightarrow> (Inr l, ls'))"

text \<open>\<^verbatim>\<open>pause\<close> waits for ENTER; \<^verbatim>\<open>show_help\<close> prints the help text and pauses.\<close>

definition pause :: "string list \<Rightarrow> (stop + unit) \<times> string list" where
  "pause ls = (case ls of [] \<Rightarrow> (Inl (Raise EOFError), []) | l # ls' \<Rightarrow> (Inr (), ls'))"

definition show_help :: "string list \<Rightarrow> (stop + unit) \<times> string list" where
  "show_help ls = pause ls"

definition help_tokens :: "string list" where
  "help_tokens = [''h'', ''help'', ''?'']"

text \<open>The third token is \<^verbatim>\<open>s\<close> followed by i with an acute accent, in UTF-8.\<close>

definition yes_tokens :: "string list" where
  "yes_tokens = [''s'', ''si'', [CHR ''s'', CHR 0xC3, CHR 0xAD], ''y'', ''yes'']"

definition no_tokens :: "string list" where
  "no_tokens = [''n'', ''no'']"

lemma pause_shorter: "pause ls = (Inr u, ls') \<Longrightarrow> length ls' < length ls"
  by (cases ls) (auto simp: pause_def)

lemma show_help_shorter: "show_help ls = (Inr u, ls') \<Longrightarrow> length ls' < length ls"
  by (simp add: show_help_def pause_shorter)

function ask_yes_no :: "bool \<Rightarrow> string list \<Rightarrow> (stop + bool) \<times> string list" where
  "ask_yes_no default_yes [] = (Inl (Raise EOFError), [])"
| "ask_yes_no default_yes (l # ls) =
     (let ans = lower (strip l) in
      if ans \<in> set help_tokens then
        (case show_help ls of
           (Inl e, ls') \<Rightarrow> (Inl e, ls')
         | (Inr u, ls') \<Rightarrow> ask_yes_no default_yes ls')
      else if ans = [] then (Inr default_yes, ls)
      else if ans \<in> set yes_tokens then (Inr True, ls)
      else if ans \<in> set no_tokens then (Inr False, ls)
      else ask_yes_no default_yes ls)"
  by pat_completeness auto
termination
  by (relation "measure (\<lambda>(d, ls). length ls)")
     (auto dest: show_help_shorter [OF sym])

subsection \<open>rclone\<close>

text \<open>\<^verbatim>\<open>require_rclone\<close>\<close>

definition require_rclone :: "env \<Rightarrow> stop + string" where
  "require_rclone e = (case which_rclone e of None \<Rightarrow> Inl (SystemExit 2) | Some r \<Rightarrow> Inr r)"

text \<open>
  \<^verbatim>\<open>get_remotes\<close>: \<^verbatim>\<open>check_output\<close> raises for a non-zero exit code, and every exception
  gives the empty list. \<open>remotes_of\<close> is the value of the function for a result of the
  subprocess.
\<close>

definition remotes_of :: "proc \<Rightarrow> string list" where
  "remotes_of p =
     (case p of
        NotStarted \<Rightarrow> []
      | Exited rc out \<Rightarrow>
          if rc \<noteq> 0 then []
          else map (\<lambda>x. rstrip_chars '':'' (strip x))
                 (filter (\<lambda>x. strip x \<noteq> []) (splitlines out)))"

definition get_remotes :: "env \<Rightarrow> string \<Rightarrow> state \<Rightarrow> string list \<times> state" where
  "get_remotes e rclone st =
     (case call_proc e [rclone, ''listremotes''] st of (p, st') \<Rightarrow> (remotes_of p, st'))"

definition quit_tokens_remote :: "string list" where
  "quit_tokens_remote = [''q'', ''quit'', ''salir'']"

text \<open>\<^verbatim>\<open>pick_remote\<close>: the empty string is the answer for a cancelled choice.\<close>

function pick_remote :: "string list \<Rightarrow> string list \<Rightarrow> (stop + string) \<times> string list" where
  "pick_remote remotes [] = (Inl (Raise EOFError), [])"
| "pick_remote remotes (l # ls) =
     (let choice = strip l in
      if lower choice \<in> set help_tokens then
        (case show_help ls of
           (Inl e, ls') \<Rightarrow> (Inl e, ls')
         | (Inr u, ls') \<Rightarrow> pick_remote remotes ls')
      else if lower choice \<in> set quit_tokens_remote then (Inr [], ls)
      else if isdigit choice \<and> 1 \<le> int_of_digits choice
                \<and> int_of_digits choice \<le> length remotes
        then (Inr (remotes ! (int_of_digits choice - 1)), ls)
      else if \<not> isdigit choice \<and> choice \<in> set remotes then (Inr choice, ls)
      else
        (case pause ls of
           (Inl e, ls') \<Rightarrow> (Inl e, ls')
         | (Inr u, ls') \<Rightarrow> pick_remote remotes ls'))"
  by pat_completeness auto
termination
  by (relation "measure (\<lambda>(r, ls). length ls)")
     (auto dest: show_help_shorter [OF sym] pause_shorter [OF sym])

text \<open>The test of lines 185 to 190, on the lower-cased output of the failed listing.\<close>

definition needs_reconnect :: "string \<Rightarrow> bool" where
  "needs_reconnect msg =
     (sublist ''empty token'' msg
      \<or> sublist ''reconnect'' msg
      \<or> sublist ''failed to create oauth client'' msg
      \<or> sublist ''invalid_grant'' msg)"

text \<open>
  \<^verbatim>\<open>remote_ok_or_fix\<close>. The second listing (the re-test) is outside any \<^verbatim>\<open>try\<close>: its
  \<^verbatim>\<open>CalledProcessError\<close> is not caught.
\<close>

definition remote_ok_or_fix :: "env \<Rightarrow> string \<Rightarrow> string \<Rightarrow> state \<Rightarrow> (stop + unit) \<times> state" where
  "remote_ok_or_fix e rclone remote st =
     (case call_proc e [rclone, ''lsd'', remote @ '':''] st of
        (NotStarted, st1) \<Rightarrow> (Inl (Raise OSError), st1)
      | (Exited rc out, st1) \<Rightarrow>
          if rc = 0 then (Inr (), st1)
          else if needs_reconnect (lower out) then
            (case on_stdin (ask_yes_no True) st1 of
               (Inl s, st2) \<Rightarrow> (Inl s, st2)
             | (Inr False, st2) \<Rightarrow> (Inl (SystemExit 2), st2)
             | (Inr True, st2) \<Rightarrow>
                 (case call_proc e [rclone, ''config'', ''reconnect'', remote @ '':''] st2 of
                    (NotStarted, st3) \<Rightarrow> (Inl (Raise OSError), st3)
                  | (Exited rc2 out2, st3) \<Rightarrow>
                      if rc2 \<noteq> 0 then (Inl (SystemExit rc2), st3)
                      else
                        (case call_proc e [rclone, ''lsd'', remote @ '':''] st3 of
                           (NotStarted, st4) \<Rightarrow> (Inl (Raise OSError), st4)
                         | (Exited rc3 out3, st4) \<Rightarrow>
                             if rc3 \<noteq> 0 then (Inl (Raise (CalledProcessError rc3 out3)), st4)
                             else on_stdin pause st4)))
          else
            (case on_stdin pause st1 of
               (Inl s, st2) \<Rightarrow> (Inl s, st2)
             | (Inr u, st2) \<Rightarrow> (Inl (SystemExit 2), st2)))"

text \<open>
  The health check result of the specification: the listing succeeded, or it failed and
  the branch taken at line 196 is the reauthorisation branch, or the fatal one.
\<close>

datatype health = OK | NeedsReauth | Fatal

definition classify_failure :: "string \<Rightarrow> health" where
  "classify_failure out = (if needs_reconnect (lower out) then NeedsReauth else Fatal)"

definition classify :: "proc \<Rightarrow> health option" where
  "classify p = (case p of NotStarted \<Rightarrow> None
                 | Exited rc out \<Rightarrow> Some (if rc = 0 then OK else classify_failure out))"

text \<open>The markers of an authorisation failure, as a table.\<close>

definition auth_markers :: "string list" where
  "auth_markers = [''empty token'', ''reconnect'', ''failed to create oauth client'', ''invalid_grant'']"

subsection \<open>Paths and the folder browser\<close>

text \<open>\<^verbatim>\<open>p.parent\<close>, \<^verbatim>\<open>p.name\<close>, and the child that \<^verbatim>\<open>p.iterdir()\<close> builds for an entry name.\<close>

definition parent :: "path \<Rightarrow> path" where
  "parent p = (if parts p = [] then p else p\<lparr>parts := butlast (parts p)\<rparr>)"

definition name :: "path \<Rightarrow> string" where
  "name p = (if parts p = [] then [] else last (parts p))"

definition child :: "path \<Rightarrow> string \<Rightarrow> path" where
  "child p n = p\<lparr>parts := parts p @ [n]\<rparr>"

text \<open>\<^verbatim>\<open>s.split(c)\<close>, with the current piece reversed in the first argument.\<close>

fun split_acc :: "char \<Rightarrow> string \<Rightarrow> string \<Rightarrow> string list" where
  "split_acc c acc [] = [rev acc]"
| "split_acc c acc (x # xs) =
     (if x = c then rev acc # split_acc c [] xs else split_acc c (x # acc) xs)"

text \<open>
  \<^verbatim>\<open>Path(s)\<close> on a POSIX system: exactly two leading slashes are kept as the root, empty
  components and \<^verbatim>\<open>.\<close> components are dropped.
\<close>

definition root_of :: "string \<Rightarrow> string" where
  "root_of s =
     (if prefix ''//'' s \<and> \<not> prefix ''///'' s then ''//''
      else if prefix ''/'' s then ''/'' else [])"

definition parse_path :: "string \<Rightarrow> path" where
  "parse_path s =
     \<lparr>root = root_of s,
      parts = filter (\<lambda>c. c \<noteq> [] \<and> c \<noteq> ''.'') (split_acc CHR ''/'' [] s)\<rparr>"

fun join_with :: "string \<Rightarrow> string list \<Rightarrow> string" where
  "join_with sep [] = []"
| "join_with sep [x] = x"
| "join_with sep (x # y # ys) = x @ sep @ join_with sep (y # ys)"

text \<open>\<^verbatim>\<open>str(p)\<close>\<close>

definition str_of_path :: "path \<Rightarrow> string" where
  "str_of_path p =
     (if root p = [] \<and> parts p = [] then ''.'' else root p @ join_with ''/'' (parts p))"

text \<open>
  \<^verbatim>\<open>list_subfolders\<close>. The comprehension asks \<^verbatim>\<open>p.is_dir()\<close> for every entry, inside the
  \<^verbatim>\<open>try\<close>: when reading the directory raises, or \<^verbatim>\<open>is_dir\<close> raises for one of the entries,
  the exception is caught and the listing is empty.
\<close>

definition list_subfolders :: "env \<Rightarrow> path \<Rightarrow> path list" where
  "list_subfolders e p =
     (case fs_iterdir e p of
        None \<Rightarrow> []
      | Some names \<Rightarrow>
          if list_ex (\<lambda>c. fs_is_dir e c = None) (map (child p) names) then []
          else
            sort_key (\<lambda>x. str_lower e (name x))
              (filter (\<lambda>c. fs_is_dir e c = Some True \<and> \<not> prefix ''.'' (name c))
                 (map (child p) names)))"

definition quit_tokens :: "string list" where
  "quit_tokens = [''q'', ''quit'']"

text \<open>\<^verbatim>\<open>folder_browser\<close>: \<open>None\<close> is the cancelled browser, \<open>Some d\<close> the chosen folder.\<close>

function folder_browser ::
  "env \<Rightarrow> path \<Rightarrow> string list \<Rightarrow> (stop + path option) \<times> string list" where
  "folder_browser e current [] = (Inl (Raise EOFError), [])"
| "folder_browser e current (l # ls) =
     (let subs = list_subfolders e current;
          choice = lower (strip l) in
      if choice \<in> set help_tokens then
        (case show_help ls of
           (Inl s, ls') \<Rightarrow> (Inl s, ls')
         | (Inr u, ls') \<Rightarrow> folder_browser e current ls')
      else if choice \<in> set quit_tokens then (Inr None, ls)
      else if choice = ''u'' then
        (if parent current \<noteq> current then folder_browser e (parent current) ls
         else folder_browser e current ls)
      else if choice = ''b'' then (Inr (Some current), ls)
      else if isdigit choice then
        (if 1 \<le> int_of_digits choice \<and> int_of_digits choice \<le> length subs
         then folder_browser e (subs ! (int_of_digits choice - 1)) ls
         else
           (case pause ls of
              (Inl s, ls') \<Rightarrow> (Inl s, ls')
            | (Inr u, ls') \<Rightarrow> folder_browser e current ls'))
      else
        (case pause ls of
           (Inl s, ls') \<Rightarrow> (Inl s, ls')
         | (Inr u, ls') \<Rightarrow> folder_browser e current ls'))"
  by pat_completeness auto
termination
  by (relation "measure (\<lambda>(e, c, ls). length ls)")
     (auto dest: show_help_shorter [OF sym] pause_shorter [OF sym])

text \<open>
  \<^verbatim>\<open>choose_source_folder\<close>. One pass through the body of its loop either ends the call
  (\<open>Finished\<close>: a \<^verbatim>\<open>return\<close> or an exception) or reaches \<^verbatim>\<open>continue\<close> with the lines that
  are left.
\<close>

datatype 'a iteration = Finished "(stop + 'a) \<times> string list" | Continue "string list"

definition after_pause :: "(stop + unit) \<times> string list \<Rightarrow> 'a iteration" where
  "after_pause r = (case r of (Inl s, ls') \<Rightarrow> Finished (Inl s, ls') | (Inr u, ls') \<Rightarrow> Continue ls')"

definition manual_path :: "env \<Rightarrow> string list \<Rightarrow> path option iteration" where
  "manual_path e ls =
     (case ls of
        [] \<Rightarrow> Finished (Inl (Raise EOFError), [])
      | m # ls2 \<Rightarrow>
          if lower (strip m) \<in> set help_tokens then after_pause (show_help ls2)
          else
            (case fs_exists e (parse_path (expand e (strip m))) of
               None \<Rightarrow> Finished (Inl (Raise OSError), ls2)
             | Some False \<Rightarrow> after_pause (pause ls2)
             | Some True \<Rightarrow>
                 (case fs_is_dir e (parse_path (expand e (strip m))) of
                    None \<Rightarrow> Finished (Inl (Raise OSError), ls2)
                  | Some False \<Rightarrow> after_pause (pause ls2)
                  | Some True \<Rightarrow>
                      Finished (folder_browser e (parse_path (expand e (strip m))) ls2))))"

definition choose_iteration ::
  "env \<Rightarrow> path option \<Rightarrow> path option \<Rightarrow> string \<Rightarrow> string list \<Rightarrow> path option iteration" where
  "choose_iteration e docs desk l ls =
     (let default = (if docs \<noteq> None then ''1'' else ''3'');
          choice = (if lower (strip l) = [] then default else lower (strip l)) in
      if choice \<in> set help_tokens then after_pause (show_help ls)
      else if choice \<in> set quit_tokens then Finished (Inr None, ls)
      else if choice = ''1'' \<and> docs \<noteq> None then Finished (folder_browser e (the docs) ls)
      else if choice = ''2'' \<and> desk \<noteq> None then Finished (folder_browser e (the desk) ls)
      else if choice = ''3'' then manual_path e ls
      else after_pause (pause ls))"

lemma after_pause_shorter:
  "after_pause (pause ls) = Continue ls' \<Longrightarrow> length ls' < length ls"
  by (cases ls) (auto simp: after_pause_def pause_def)

lemma manual_path_shorter:
  "manual_path e ls = Continue ls' \<Longrightarrow> length ls' < length ls"
  by (cases ls)
     (auto simp: manual_path_def show_help_def
       split: if_splits option.splits bool.splits dest: after_pause_shorter)

lemma choose_iteration_shorter:
  "choose_iteration e docs desk l ls = Continue ls' \<Longrightarrow> length ls' < length ls"
  unfolding choose_iteration_def Let_def show_help_def
  by (auto split: if_splits dest: after_pause_shorter manual_path_shorter)

function choose_loop ::
  "env \<Rightarrow> path option \<Rightarrow> path option \<Rightarrow> string list \<Rightarrow> (stop + path option) \<times> string list" where
  "choose_loop e docs desk [] = (Inl (Raise EOFError), [])"
| "choose_loop e docs desk (l # ls) =
     (case choose_iteration e docs desk l ls of
        Finished r \<Rightarrow> r
      | Continue ls' \<Rightarrow> choose_loop e docs desk ls')"
  by pat_completeness auto
termination
  by (relation "measure (\<lambda>(e, docs, desk, ls). length ls)")
     (auto dest!: choose_iteration_shorter)

text \<open>
  \<^verbatim>\<open>next((p for p in candidates if p.exists()), None)\<close>: the first candidate that exists;
  an \<^verbatim>\<open>exists\<close> that raises ends the call.
\<close>

fun first_existing :: "env \<Rightarrow> path list \<Rightarrow> stop + path option" where
  "first_existing e [] = Inr None"
| "first_existing e (p # ps) =
     (case fs_exists e p of
        None \<Rightarrow> Inl (Raise OSError)
      | Some True \<Rightarrow> Inr (Some p)
      | Some False \<Rightarrow> first_existing e ps)"

definition choose_source_folder :: "env \<Rightarrow> string list \<Rightarrow> (stop + path option) \<times> string list" where
  "choose_source_folder e ls =
     (case first_existing e [child (home e) ''Documentos'', child (home e) ''Documents''] of
        Inl s \<Rightarrow> (Inl s, ls)
      | Inr docs \<Rightarrow>
          (case first_existing e [child (home e) ''Escritorio'', child (home e) ''Desktop''] of
             Inl s \<Rightarrow> (Inl s, ls)
           | Inr desk \<Rightarrow> choose_loop e docs desk ls))"

subsection \<open>The orchestrator\<close>

text \<open>Lines 346 to 366 of \<^verbatim>\<open>main\<close>: the configured remotes, after the setup wizard if none.\<close>

definition configure_remotes :: "env \<Rightarrow> string \<Rightarrow> state \<Rightarrow> (stop + string list) \<times> state" where
  "configure_remotes e rclone st =
     (case get_remotes e rclone st of
        (remotes, st1) \<Rightarrow>
          if remotes \<noteq> [] then (Inr remotes, st1)
          else
            (case on_stdin (ask_yes_no True) st1 of
               (Inl s, st2) \<Rightarrow> (Inl s, st2)
             | (Inr False, st2) \<Rightarrow> (Inl Return, st2)
             | (Inr True, st2) \<Rightarrow>
                 (case call_proc e [rclone, ''config''] st2 of
                    (NotStarted, st3) \<Rightarrow> (Inl (Raise OSError), st3)
                  | (Exited rc out, st3) \<Rightarrow>
                      if rc \<noteq> 0 then (Inl (SystemExit rc), st3)
                      else
                        (case get_remotes e rclone st3 of
                           (remotes2, st4) \<Rightarrow>
                             if remotes2 = [] then (Inl (SystemExit 2), st4)
                             else (Inr remotes2, st4)))))"

text \<open>Line 369. \<^verbatim>\<open>remotes[0]\<close> raises \<^verbatim>\<open>IndexError\<close> on the empty list.\<close>

definition default_remote :: "string list \<Rightarrow> stop + string" where
  "default_remote remotes =
     (if ''gdrive'' \<in> set remotes then Inr ''gdrive''
      else case remotes of [] \<Rightarrow> Inl (Raise IndexError) | r # rs \<Rightarrow> Inr r)"

text \<open>Lines 369 to 389: the remote to use.\<close>

definition select_remote :: "string list \<Rightarrow> string list \<Rightarrow> (stop + string) \<times> string list" where
  "select_remote remotes ls =
     (case default_remote remotes of
        Inl s \<Rightarrow> (Inl s, ls)
      | Inr d \<Rightarrow>
          (case ls of
             [] \<Rightarrow> (Inl (Raise EOFError), [])
           | l # ls1 \<Rightarrow>
               let ans = (if lower (strip l) = [] then ''s'' else lower (strip l)) in
               if ans \<in> set help_tokens then
                 (case show_help ls1 of
                    (Inl s, ls2) \<Rightarrow> (Inl s, ls2)
                  | (Inr u, ls2) \<Rightarrow> (Inl Return, ls2))
               else if ans \<in> set quit_tokens then (Inl Return, ls1)
               else if ans \<in> set no_tokens then
                 (case pick_remote remotes ls1 of
                    (Inl s, ls2) \<Rightarrow> (Inl s, ls2)
                  | (Inr r, ls2) \<Rightarrow> if r = [] then (Inl Return, ls2) else (Inr r, ls2))
               else (Inr d, ls1)))"

record params =
  dest :: string
  use_versions :: bool
  versions_base :: string
  dry_run :: bool
  show_progress :: bool

text \<open>Lines 412 to 416: the folder of the versions, asked only when versioning is on.\<close>

definition ask_versions_base :: "string list \<Rightarrow> (stop + string) \<times> string list" where
  "ask_versions_base ls =
     then_do input_line (\<lambda>l.
       let custom = strip l in
       then_do
         (if lower custom \<in> set help_tokens
          then then_do show_help (\<lambda>u. then_do input_line (\<lambda>l2 ls'. (Inr (strip l2), ls')))
          else (\<lambda>ls'. (Inr custom, ls')))
         (\<lambda>custom2 ls'.
            (Inr (strip_chars ''/'' (if custom2 = [] then ''Backup0RG_Versiones'' else custom2)), ls')))
       ls"

text \<open>Lines 406 to 419: the parameters of the backup.\<close>

definition collect_params :: "string list \<Rightarrow> (stop + params) \<times> string list" where
  "collect_params ls =
     then_do input_line (\<lambda>l.
       let d = strip_chars ''/'' (if strip l = [] then ''Backup0RG'' else strip l) in
       then_do (ask_yes_no True) (\<lambda>uv.
         then_do (if uv then ask_versions_base else (\<lambda>ls'. (Inr ''Backup0RG_Versiones'', ls'))) (\<lambda>vb.
           then_do (ask_yes_no True) (\<lambda>dr.
             then_do (ask_yes_no True) (\<lambda>sp ls'.
               (Inr \<lparr>dest = d, use_versions = uv, versions_base = vb,
                     dry_run = dr, show_progress = sp\<rparr>, ls'))))))
       ls"

definition digit_char :: "nat \<Rightarrow> char" where
  "digit_char d = ''0123456789'' ! (d mod 10)"

text \<open>
  \<^verbatim>\<open>strftime("%Y-%m-%d")\<close>: the year in four digits (the years of \<^verbatim>\<open>datetime.now()\<close>, from
  1000 to 9999), the month and the day in two.
\<close>

definition strftime_Ymd :: "date \<Rightarrow> string" where
  "strftime_Ymd d =
     [digit_char (year d div 1000), digit_char (year d div 100),
      digit_char (year d div 10), digit_char (year d)]
     @ ''-'' @ [digit_char (month d div 10), digit_char (month d)]
     @ ''-'' @ [digit_char (day d div 10), digit_char (day d)]"

text \<open>Lines 421 to 428: the transfer command.\<close>

definition build_cmd :: "string \<Rightarrow> path \<Rightarrow> string \<Rightarrow> params \<Rightarrow> date \<Rightarrow> string list" where
  "build_cmd rclone source_path remote ps today =
     [rclone, ''copy'', str_of_path source_path, remote @ '':'' @ dest ps, ''--fast-list'']
     @ (if use_versions ps
        then [''--backup-dir'', remote @ '':'' @ versions_base ps @ ''/'' @ strftime_Ymd today]
        else [])
     @ (if dry_run ps then [''--dry-run''] else [])
     @ (if show_progress ps then [''--progress''] else [])"

text \<open>Lines 443 to 466: the last confirmation, and the copy.\<close>

definition confirm_and_execute :: "env \<Rightarrow> string list \<Rightarrow> state \<Rightarrow> stop \<times> state" where
  "confirm_and_execute e cmd st =
     (case stdin st of
        [] \<Rightarrow> (Raise EOFError, st)
      | l # ls \<Rightarrow>
          let go = (if lower (strip l) = [] then ''s'' else lower (strip l)) in
          if go \<in> set help_tokens then
            (case show_help ls of
               (Inl s, ls') \<Rightarrow> (s, st\<lparr>stdin := ls'\<rparr>)
             | (Inr u, ls') \<Rightarrow> (Return, st\<lparr>stdin := ls'\<rparr>))
          else if go \<in> set [''n'', ''no'', ''q'', ''quit''] then (Return, st\<lparr>stdin := ls\<rparr>)
          else
            (case call_proc e cmd (st\<lparr>stdin := ls\<rparr>) of
               (NotStarted, st1) \<Rightarrow> (Raise OSError, st1)
             | (Exited rc out, st1) \<Rightarrow>
                 if rc \<noteq> 0 then (SystemExit rc, st1)
                 else
                   (case on_stdin pause st1 of
                      (Inl s, st2) \<Rightarrow> (s, st2)
                    | (Inr u, st2) \<Rightarrow> (Return, st2))))"

text \<open>\<^verbatim>\<open>main\<close>: how the run ends, and the state it ends in.\<close>

definition main_steps :: "env \<Rightarrow> state \<Rightarrow> (stop + unit) \<times> state" where
  "main_steps e =
     then_do (on_stdin pause) (\<lambda>u.
     then_do (\<lambda>st. (require_rclone e, st)) (\<lambda>rclone.
     then_do (configure_remotes e rclone) (\<lambda>remotes.
     then_do (on_stdin (select_remote remotes)) (\<lambda>remote.
     then_do (remote_ok_or_fix e rclone remote) (\<lambda>u.
     then_do (on_stdin (choose_source_folder e)) (\<lambda>source.
       case source of
         None \<Rightarrow> (\<lambda>st. (Inl Return, st))
       | Some source_path \<Rightarrow>
           then_do (on_stdin collect_params) (\<lambda>ps st.
             case confirm_and_execute e (build_cmd rclone source_path remote ps (now e)) st of
               (s, st') \<Rightarrow> (Inl s, st'))))))))"

definition main :: "env \<Rightarrow> state \<Rightarrow> stop \<times> state" where
  "main e st = (case main_steps e st of (Inl s, st') \<Rightarrow> (s, st') | (Inr u, st') \<Rightarrow> (Return, st'))"

subsection \<open>Environments for the examples\<close>

text \<open>The \<open>k\<close>-th subprocess of a run gets the \<open>k\<close>-th result of the list.\<close>

definition scripted :: "proc list \<Rightarrow> string list list \<Rightarrow> string list \<Rightarrow> proc" where
  "scripted rs tr args = (if length tr < length rs then rs ! length tr else NotStarted)"

definition home_u :: path where
  "home_u = \<lparr>root = ''/'', parts = [''home'', ''u'']\<rparr>"

text \<open>
  A home directory \<^verbatim>\<open>/home/u\<close> with the folders \<^verbatim>\<open>Documents\<close> (holding \<^verbatim>\<open>Photos\<close>,
  \<^verbatim>\<open>archive\<close>, the hidden \<^verbatim>\<open>.cache\<close> and the file \<^verbatim>\<open>notes.txt\<close>) and \<^verbatim>\<open>Desktop\<close>.
\<close>

definition demo_dirs :: "(path \<times> string list) list" where
  "demo_dirs =
     [(\<lparr>root = ''/'', parts = []\<rparr>, [''home'']),
      (\<lparr>root = ''/'', parts = [''home'']\<rparr>, [''u'']),
      (home_u, [''Documents'', ''Desktop'']),
      (child home_u ''Documents'', [''archive'', ''notes.txt'', ''.cache'', ''Photos'']),
      (child home_u ''Desktop'', []),
      (child (child home_u ''Documents'') ''Photos'', []),
      (child (child home_u ''Documents'') ''archive'', []),
      (child (child home_u ''Documents'') ''.cache'', [])]"

definition demo_env :: "proc list \<Rightarrow> env" where
  "demo_env rs =
     \<lparr>which_rclone = Some ''/usr/bin/rclone'',
      run = scripted rs,
      fs_iterdir = map_of demo_dirs,
      fs_is_dir = (\<lambda>p. Some (p \<in> set (map fst demo_dirs))),
      fs_exists = (\<lambda>p. Some (p \<in> set (map fst demo_dirs)
                  \<or> p = child (child home_u ''Documents'') ''notes.txt'')),
      str_lower = lower,
      home = home_u,
      expand = (\<lambda>s. s),
      now = \<lparr>year = 2024, month = 1, day = 2\<rparr>\<rparr>"


text \<open>A run that reaches the last confirmation, and remotes whose token has expired.\<close>

definition demo_run_env :: env where
  "demo_run_env = demo_env [Exited 0 (''gdrive:'' @ [CHR 0x0A]), Exited 0 []]"

definition reauth_env :: "int \<Rightarrow> int \<Rightarrow> env" where
  "reauth_env rc2 rc3 =
     demo_env [Exited 1 ''Failed to create oauth client: empty token found'',
               Exited rc2 [], Exited rc3 ''still failing'']"

section \<open>Theorems\<close>

subsection \<open>Strings\<close>

lemma sublist_map_iff:
  "sublist m (map f t) \<longleftrightarrow> (\<exists>u. sublist u t \<and> map f u = m)"
proof
  assume "sublist m (map f t)"
  then obtain ps ss where "map f t = ps @ m @ ss"
    by (auto simp: sublist_def)
  then obtain a vs where a: "t = a @ vs" "map f vs = m @ ss"
    by (metis map_eq_append_conv)
  then obtain b c where "vs = b @ c" "map f b = m"
    by (metis map_eq_append_conv)
  with a have "t = a @ b @ c" "map f b = m"
    by simp_all
  then show "\<exists>u. sublist u t \<and> map f u = m"
    by (auto simp: sublist_def)
next
  assume "\<exists>u. sublist u t \<and> map f u = m"
  then obtain u ps ss where "t = ps @ u @ ss" "map f u = m"
    by (auto simp: sublist_def)
  then have "map f t = map f ps @ m @ map f ss"
    by simp
  then show "sublist m (map f t)"
    unfolding sublist_def by blast
qed

lemma needs_reconnect_iff:
  "needs_reconnect msg \<longleftrightarrow> (\<exists>m \<in> set auth_markers. sublist m msg)"
  by (simp add: needs_reconnect_def auth_markers_def)

lemma lower_invalid_grant: "lower ''invalid_grant'' = ''invalid_grant''"
  by (simp add: lower_def is_upper_def)

lemma digit_val_digit_char: "digit_val (digit_char n) = n mod 10"
proof -
  have "n mod 10 < 10" by simp
  then have "n mod 10 = 0 \<or> n mod 10 = 1 \<or> n mod 10 = 2 \<or> n mod 10 = 3 \<or> n mod 10 = 4
      \<or> n mod 10 = 5 \<or> n mod 10 = 6 \<or> n mod 10 = 7 \<or> n mod 10 = 8 \<or> n mod 10 = 9"
    by arith
  then show ?thesis
    unfolding digit_char_def digit_val_def
    by (elim disjE) simp_all
qed

lemma two_digits:
  fixes m :: nat
  assumes "m < 100"
  shows "10 * (m div 10 mod 10) + m mod 10 = m"
proof -
  from assms have "m div 10 < 10"
    by (simp add: less_mult_imp_div_less)
  then show ?thesis
    by simp
qed

lemma horner4:
  fixes y a b c r0 r1 r2 :: nat
  assumes "y = 10 * a + r0" "a = 10 * b + r1" "b = 10 * c + r2"
  shows "10 * (10 * (10 * c + r2) + r1) + r0 = y"
  using assms by simp

lemma four_digits:
  fixes y :: nat
  assumes "y < 10000"
  shows "10 * (10 * (10 * (y div 1000 mod 10) + y div 100 mod 10) + y div 10 mod 10) + y mod 10 = y"
proof (rule horner4)
  have h: "y div 100 = y div 10 div 10"
    using div_mult2_eq [of y 10 10] by simp
  have t: "y div 1000 = y div 100 div 10"
    using div_mult2_eq [of y 100 10] by simp
  from assms have c: "y div 1000 < 10"
    by (simp add: less_mult_imp_div_less)
  show "y = 10 * (y div 10) + y mod 10"
    by simp
  show "y div 10 = 10 * (y div 100) + y div 10 mod 10"
    unfolding h by simp
  from c show "y div 100 = 10 * (y div 1000 mod 10) + y div 100 mod 10"
    unfolding t by simp
qed

lemma int_of_digits4:
  "int_of_digits [c1, c2, c3, c4] =
     10 * (10 * (10 * digit_val c1 + digit_val c2) + digit_val c3) + digit_val c4"
  by (simp add: int_of_digits_def)

lemma int_of_digits2: "int_of_digits [c1, c2] = 10 * digit_val c1 + digit_val c2"
  by (simp add: int_of_digits_def)

lemma strftime_Ymd_format:
  assumes "year d < 10000" "month d < 100" "day d < 100"
  shows "length (strftime_Ymd d) = 10"
    and "strftime_Ymd d ! 4 = CHR ''-''" and "strftime_Ymd d ! 7 = CHR ''-''"
    and "int_of_digits (take 4 (strftime_Ymd d)) = year d"
    and "int_of_digits (take 2 (drop 5 (strftime_Ymd d))) = month d"
    and "int_of_digits (drop 8 (strftime_Ymd d)) = day d"
proof -
  show "length (strftime_Ymd d) = 10"
    and "strftime_Ymd d ! 4 = CHR ''-''" and "strftime_Ymd d ! 7 = CHR ''-''"
    by (simp_all add: strftime_Ymd_def)
  have "take 4 (strftime_Ymd d) =
      [digit_char (year d div 1000), digit_char (year d div 100),
       digit_char (year d div 10), digit_char (year d)]"
    by (simp add: strftime_Ymd_def)
  with assms(1) show "int_of_digits (take 4 (strftime_Ymd d)) = year d"
    by (simp only: int_of_digits4 digit_val_digit_char four_digits)
  have "take 2 (drop 5 (strftime_Ymd d)) = [digit_char (month d div 10), digit_char (month d)]"
    by (simp add: strftime_Ymd_def)
  with assms(2) show "int_of_digits (take 2 (drop 5 (strftime_Ymd d))) = month d"
    by (simp only: int_of_digits2 digit_val_digit_char two_digits)
  have "drop 8 (strftime_Ymd d) = [digit_char (day d div 10), digit_char (day d)]"
    by (simp add: strftime_Ymd_def)
  with assms(3) show "int_of_digits (drop 8 (strftime_Ymd d)) = day d"
    by (simp only: int_of_digits2 digit_val_digit_char two_digits)
qed

subsection \<open>The health check\<close>

text \<open>
  C1. The output of a failed listing is classified NeedsReauth exactly when some
  contiguous piece of it is, up to the case of its letters, one of the four markers;
  otherwise it is classified Fatal. In particular an output that contains
  \<^verbatim>\<open>invalid_grant\<close> is classified NeedsReauth.
\<close>

theorem classify_failure_markers:
  "(classify_failure out = NeedsReauth
      \<longleftrightarrow> (\<exists>m \<in> set auth_markers. \<exists>u. sublist u out \<and> lower u = m))
   \<and> ((\<forall>m \<in> set auth_markers. \<not> (\<exists>u. sublist u out \<and> lower u = m))
      \<longrightarrow> classify_failure out = Fatal)
   \<and> (sublist ''invalid_grant'' out \<longrightarrow> classify_failure out = NeedsReauth \<and> classify_failure out \<noteq> Fatal)"
proof -
  have iff: "needs_reconnect (lower out)
      \<longleftrightarrow> (\<exists>m \<in> set auth_markers. \<exists>u. sublist u out \<and> lower u = m)"
    unfolding needs_reconnect_iff lower_def sublist_map_iff ..
  have "needs_reconnect (lower out)" if "sublist ''invalid_grant'' out"
  proof -
    have "''invalid_grant'' \<in> set auth_markers"
      by (simp add: auth_markers_def)
    with that lower_invalid_grant show ?thesis
      unfolding iff by blast
  qed
  with iff show ?thesis
    by (auto simp: classify_failure_def)
qed

theorem classify_failure_markers_witness:
  "sublist ''invalid_grant'' ''oauth2: cannot fetch token: Invalid_Grant invalid_grant''
   \<and> classify_failure ''oauth2: cannot fetch token: Invalid_Grant invalid_grant'' = NeedsReauth
   \<and> classify_failure ''quota'' = Fatal"
proof -
  have a: "sublist ''invalid_grant'' ''oauth2: cannot fetch token: Invalid_Grant invalid_grant''"
    by (simp add: sublist_Cons_right)
  have b: "classify_failure ''quota'' \<noteq> NeedsReauth"
    by (simp add: classify_failure_def needs_reconnect_def lower_def is_upper_def sublist_Cons_right)
  from b classify_failure_markers [of "''quota''"]
  have c: "\<forall>m \<in> set auth_markers. \<not> (\<exists>u. sublist u ''quota'' \<and> lower u = m)"
    by blast
  from a c classify_failure_markers [of "''oauth2: cannot fetch token: Invalid_Grant invalid_grant''"]
    classify_failure_markers [of "''quota''"]
  show ?thesis by blast
qed

text \<open>
  The classification decides what the health check does: nothing more after OK, the
  fatal branch (the raw output, a pause, \<^verbatim>\<open>SystemExit(2)\<close>) after Fatal, and the prompt for
  the reauthorisation after NeedsReauth.
\<close>

lemma remote_ok_or_fix_by_health:
  assumes "run e (trace st) [rclone, ''lsd'', remote @ '':''] = p"
  shows "classify p = Some OK \<Longrightarrow>
      remote_ok_or_fix e rclone remote st =
        (Inr (), st\<lparr>trace := trace st @ [[rclone, ''lsd'', remote @ '':'']]\<rparr>)"
    and "classify p = Some Fatal \<Longrightarrow>
      remote_ok_or_fix e rclone remote st =
        (case pause (stdin st) of
           (Inl s, ls) \<Rightarrow> Inl s
         | (Inr u, ls) \<Rightarrow> Inl (SystemExit 2),
         st\<lparr>stdin := snd (pause (stdin st)),
            trace := trace st @ [[rclone, ''lsd'', remote @ '':'']]\<rparr>)"
    and "classify p = Some NeedsReauth \<Longrightarrow> ask_yes_no True (stdin st) = (Inl s, ls) \<Longrightarrow>
      remote_ok_or_fix e rclone remote st =
        (Inl s, st\<lparr>stdin := ls, trace := trace st @ [[rclone, ''lsd'', remote @ '':'']]\<rparr>)"
  using assms
  by (auto simp: remote_ok_or_fix_def classify_def classify_failure_def call_proc_def on_stdin_def
      split: proc.splits if_splits prod.splits sum.splits)

text \<open>
  C4. Let the first listing fail with an output that has one of the markers. If the user
  answers no to the prompt, the call ends with \<^verbatim>\<open>SystemExit(2)\<close>, a status that is not zero.
  If the user answers yes and the reauthorisation ends with a return code that is not
  zero, the call ends with \<^verbatim>\<open>SystemExit\<close> of that code: the status of the run is the code
  modulo 256, which is the code itself for an exit code (1 to 255) and is not zero for
  any return code of a subprocess (the negated signal number when a signal killed it).
  If the reauthorisation exits with zero, the listing is run once more, and that is the
  last subprocess of the call: when it fails, its \<^verbatim>\<open>CalledProcessError\<close> is raised and
  nothing is retried; when it succeeds, the call pauses and returns.
\<close>

theorem remote_ok_or_fix_reauth:
  assumes "run e (trace st) [rclone, ''lsd'', remote @ '':''] = Exited rc out"
    and "rc \<noteq> 0" and "needs_reconnect (lower out)"
  shows "(ask_yes_no True (stdin st) = (Inr False, ls) \<longrightarrow>
            remote_ok_or_fix e rclone remote st =
              (Inl (SystemExit 2),
               st\<lparr>stdin := ls, trace := trace st @ [[rclone, ''lsd'', remote @ '':'']]\<rparr>)
            \<and> exit_status (SystemExit 2) \<noteq> 0)
    \<and> (ask_yes_no True (stdin st) = (Inr True, ls)
         \<and> run e (trace st @ [[rclone, ''lsd'', remote @ '':'']])
              [rclone, ''config'', ''reconnect'', remote @ '':''] = Exited rc2 out2
         \<and> rc2 \<noteq> 0 \<longrightarrow>
            remote_ok_or_fix e rclone remote st =
              (Inl (SystemExit rc2),
               st\<lparr>stdin := ls,
                  trace := trace st @ [[rclone, ''lsd'', remote @ '':''],
                                       [rclone, ''config'', ''reconnect'', remote @ '':'']]\<rparr>)
            \<and> exit_status (SystemExit rc2) = rc2 mod 256
            \<and> (0 < rc2 \<and> rc2 < 256 \<longrightarrow> exit_status (SystemExit rc2) = rc2)
            \<and> (- 256 < rc2 \<and> rc2 < 256 \<longrightarrow> exit_status (SystemExit rc2) \<noteq> 0))
    \<and> (ask_yes_no True (stdin st) = (Inr True, ls)
         \<and> run e (trace st @ [[rclone, ''lsd'', remote @ '':'']])
              [rclone, ''config'', ''reconnect'', remote @ '':''] = Exited 0 out2
         \<and> run e (trace st @ [[rclone, ''lsd'', remote @ '':''],
                                [rclone, ''config'', ''reconnect'', remote @ '':'']])
              [rclone, ''lsd'', remote @ '':''] = Exited rc3 out3 \<longrightarrow>
            remote_ok_or_fix e rclone remote st =
              (if rc3 \<noteq> 0 then Inl (Raise (CalledProcessError rc3 out3)) else fst (pause ls),
               st\<lparr>stdin := (if rc3 \<noteq> 0 then ls else snd (pause ls)),
                  trace := trace st @ [[rclone, ''lsd'', remote @ '':''],
                                       [rclone, ''config'', ''reconnect'', remote @ '':''],
                                       [rclone, ''lsd'', remote @ '':'']]\<rparr>))"
  using assms
  by (auto simp: remote_ok_or_fix_def call_proc_def on_stdin_def split: prod.splits)

theorem remote_ok_or_fix_reauth_witness:
  "remote_ok_or_fix (reauth_env 0 0) ''rclone'' ''gdrive'' \<lparr>stdin = [''n'', ''x''], trace = []\<rparr>
     = (Inl (SystemExit 2), \<lparr>stdin = [''x''], trace = [[''rclone'', ''lsd'', ''gdrive:'']]\<rparr>)
   \<and> remote_ok_or_fix (reauth_env 7 0) ''rclone'' ''gdrive'' \<lparr>stdin = [''y'', ''x''], trace = []\<rparr>
     = (Inl (SystemExit 7),
        \<lparr>stdin = [''x''],
         trace = [[''rclone'', ''lsd'', ''gdrive:''], [''rclone'', ''config'', ''reconnect'', ''gdrive:'']]\<rparr>)
   \<and> exit_status (SystemExit 7) = 7
   \<and> remote_ok_or_fix (reauth_env (- 15) 0) ''rclone'' ''gdrive'' \<lparr>stdin = [''y'', ''x''], trace = []\<rparr>
     = (Inl (SystemExit (- 15)),
        \<lparr>stdin = [''x''],
         trace = [[''rclone'', ''lsd'', ''gdrive:''], [''rclone'', ''config'', ''reconnect'', ''gdrive:'']]\<rparr>)
   \<and> exit_status (SystemExit (- 15)) = 241
   \<and> remote_ok_or_fix (reauth_env 0 1) ''rclone'' ''gdrive'' \<lparr>stdin = [''y'', ''x''], trace = []\<rparr>
     = (Inl (Raise (CalledProcessError 1 ''still failing'')),
        \<lparr>stdin = [''x''],
         trace = [[''rclone'', ''lsd'', ''gdrive:''], [''rclone'', ''config'', ''reconnect'', ''gdrive:''],
                  [''rclone'', ''lsd'', ''gdrive:'']]\<rparr>)
   \<and> remote_ok_or_fix (reauth_env 0 0) ''rclone'' ''gdrive'' \<lparr>stdin = [''y'', ''x''], trace = []\<rparr>
     = (Inr (),
        \<lparr>stdin = [],
         trace = [[''rclone'', ''lsd'', ''gdrive:''], [''rclone'', ''config'', ''reconnect'', ''gdrive:''],
                  [''rclone'', ''lsd'', ''gdrive:'']]\<rparr>)"
proof -
  have first: "run (reauth_env a b) (trace \<lparr>stdin = i, trace = []\<rparr>) [''rclone'', ''lsd'', ''gdrive'' @ '':'']
      = Exited 1 ''Failed to create oauth client: empty token found''" for a b i
    by (simp add: reauth_env_def demo_env_def scripted_def)
  have second: "run (reauth_env a b)
        (trace \<lparr>stdin = i, trace = []\<rparr> @ [[''rclone'', ''lsd'', ''gdrive'' @ '':'']])
        [''rclone'', ''config'', ''reconnect'', ''gdrive'' @ '':''] = Exited a []" for a b i
    by (simp add: reauth_env_def demo_env_def scripted_def)
  have third: "run (reauth_env a b)
        (trace \<lparr>stdin = i, trace = []\<rparr> @ [[''rclone'', ''lsd'', ''gdrive'' @ '':''],
           [''rclone'', ''config'', ''reconnect'', ''gdrive'' @ '':'']])
        [''rclone'', ''lsd'', ''gdrive'' @ '':''] = Exited b ''still failing''" for a b i
    by (simp add: reauth_env_def demo_env_def scripted_def)
  have marker: "needs_reconnect (lower ''Failed to create oauth client: empty token found'')"
    by code_simp
  have no: "ask_yes_no True (stdin \<lparr>stdin = [''n'', ''x''], trace = []\<rparr>) = (Inr False, [''x''])"
    by code_simp
  have yes: "ask_yes_no True (stdin \<lparr>stdin = [''y'', ''x''], trace = []\<rparr>) = (Inr True, [''x''])"
    by code_simp
  have one: "(1::int) \<noteq> 0" and seven: "(7::int) \<noteq> 0"
    by simp_all
  from no second third
    remote_ok_or_fix_reauth [OF first one marker, where a1 = 0 and b1 = 0 and ls = "[''x'']"]
  have a: "remote_ok_or_fix (reauth_env 0 0) ''rclone'' ''gdrive'' \<lparr>stdin = [''n'', ''x''], trace = []\<rparr>
     = (Inl (SystemExit 2), \<lparr>stdin = [''x''], trace = [[''rclone'', ''lsd'', ''gdrive:'']]\<rparr>)"
    by simp
  from yes second [of 7 0] seven
    remote_ok_or_fix_reauth [OF first one marker, where a1 = 7 and b1 = 0 and ls = "[''x'']"
      and ?rc2.0 = 7 and ?out2.0 = "[]"]
  have b: "remote_ok_or_fix (reauth_env 7 0) ''rclone'' ''gdrive'' \<lparr>stdin = [''y'', ''x''], trace = []\<rparr>
     = (Inl (SystemExit 7),
        \<lparr>stdin = [''x''],
         trace = [[''rclone'', ''lsd'', ''gdrive:''], [''rclone'', ''config'', ''reconnect'', ''gdrive:'']]\<rparr>)"
    by simp
  from yes second [of 0 1] third [of 0 1]
    remote_ok_or_fix_reauth [OF first one marker, where a1 = 0 and b1 = 1 and ls = "[''x'']"
      and ?out2.0 = "[]" and ?rc3.0 = 1 and ?out3.0 = "''still failing''"]
  have c: "remote_ok_or_fix (reauth_env 0 1) ''rclone'' ''gdrive'' \<lparr>stdin = [''y'', ''x''], trace = []\<rparr>
     = (Inl (Raise (CalledProcessError 1 ''still failing'')),
        \<lparr>stdin = [''x''],
         trace = [[''rclone'', ''lsd'', ''gdrive:''], [''rclone'', ''config'', ''reconnect'', ''gdrive:''],
                  [''rclone'', ''lsd'', ''gdrive:'']]\<rparr>)"
    by simp
  from yes second [of 0 0] third [of 0 0]
    remote_ok_or_fix_reauth [OF first one marker, where a1 = 0 and b1 = 0 and ls = "[''x'']"
      and ?out2.0 = "[]" and ?rc3.0 = 0 and ?out3.0 = "''still failing''"]
  have d: "remote_ok_or_fix (reauth_env 0 0) ''rclone'' ''gdrive'' \<lparr>stdin = [''y'', ''x''], trace = []\<rparr>
     = (Inr (),
        \<lparr>stdin = [],
         trace = [[''rclone'', ''lsd'', ''gdrive:''], [''rclone'', ''config'', ''reconnect'', ''gdrive:''],
                  [''rclone'', ''lsd'', ''gdrive:'']]\<rparr>)"
    by (simp add: pause_def)
  have killed: "(- 15 :: int) \<noteq> 0" and in_range: "(0::int) < 7 \<and> (7::int) < 256"
    by simp_all
  from yes second [of 7 0] seven in_range
    remote_ok_or_fix_reauth [OF first one marker, where a1 = 7 and b1 = 0 and ls = "[''x'']"
      and ?rc2.0 = 7 and ?out2.0 = "[]"]
  have b': "exit_status (SystemExit 7) = 7"
    by blast
  from yes second [of "- 15" 0] killed
    remote_ok_or_fix_reauth [OF first one marker, where a1 = "- 15" and b1 = 0 and ls = "[''x'']"
      and ?rc2.0 = "- 15" and ?out2.0 = "[]"]
  have e: "remote_ok_or_fix (reauth_env (- 15) 0) ''rclone'' ''gdrive'' \<lparr>stdin = [''y'', ''x''], trace = []\<rparr>
     = (Inl (SystemExit (- 15)),
        \<lparr>stdin = [''x''],
         trace = [[''rclone'', ''lsd'', ''gdrive:''], [''rclone'', ''config'', ''reconnect'', ''gdrive:'']]\<rparr>)
     \<and> exit_status (SystemExit (- 15)) = 241"
    by simp
  from a b c d b' e show ?thesis
    by simp
qed

subsection \<open>The transfer command\<close>

text \<open>
  C2. With versioning enabled the command is the five leading words, then the
  backup-directory flag and its target, the remote, a colon, the base name of the versions,
  a slash and the date, then the optional flags. The date is ten characters, year, month
  and day in decimal digits with a hyphen between them. With the base name \<^verbatim>\<open>V\<close> on
  2024-01-02 the target is the remote followed by \<^verbatim>\<open>:V/2024-01-02\<close>. With versioning
  disabled nothing after the five leading words is the backup-directory flag.
\<close>

theorem backup_dir_target:
  "(use_versions ps \<longrightarrow>
      build_cmd rclone src remote ps today =
        [rclone, ''copy'', str_of_path src, remote @ '':'' @ dest ps, ''--fast-list'',
         ''--backup-dir'', remote @ '':'' @ versions_base ps @ ''/'' @ strftime_Ymd today]
        @ (if dry_run ps then [''--dry-run''] else [])
        @ (if show_progress ps then [''--progress''] else []))
   \<and> (year today < 10000 \<and> month today < 100 \<and> day today < 100 \<longrightarrow>
        length (strftime_Ymd today) = 10
        \<and> int_of_digits (take 4 (strftime_Ymd today)) = year today
        \<and> strftime_Ymd today ! 4 = CHR ''-''
        \<and> int_of_digits (take 2 (drop 5 (strftime_Ymd today))) = month today
        \<and> strftime_Ymd today ! 7 = CHR ''-''
        \<and> int_of_digits (drop 8 (strftime_Ymd today)) = day today)
   \<and> (use_versions ps \<and> versions_base ps = ''V'' \<and> today = \<lparr>year = 2024, month = 1, day = 2\<rparr> \<longrightarrow>
        build_cmd rclone src remote ps today ! 5 = ''--backup-dir''
        \<and> build_cmd rclone src remote ps today ! 6 = remote @ '':V/2024-01-02'')
   \<and> (\<not> use_versions ps \<longrightarrow>
        ''--backup-dir'' \<notin> set (drop 5 (build_cmd rclone src remote ps today)))"
proof (intro conjI impI)
  assume "year today < 10000 \<and> month today < 100 \<and> day today < 100"
  then show "length (strftime_Ymd today) = 10"
    and "int_of_digits (take 4 (strftime_Ymd today)) = year today"
    and "strftime_Ymd today ! 4 = CHR ''-''"
    and "int_of_digits (take 2 (drop 5 (strftime_Ymd today))) = month today"
    and "strftime_Ymd today ! 7 = CHR ''-''"
    and "int_of_digits (drop 8 (strftime_Ymd today)) = day today"
    by (simp_all add: strftime_Ymd_format)
qed (simp_all add: build_cmd_def strftime_Ymd_def digit_char_def)

theorem backup_dir_target_witness:
  "build_cmd ''/usr/bin/rclone'' (child home_u ''Documents'') ''gdrive''
      \<lparr>dest = ''Backup0RG'', use_versions = True, versions_base = ''V'',
       dry_run = True, show_progress = False\<rparr> \<lparr>year = 2024, month = 1, day = 2\<rparr>
    = [''/usr/bin/rclone'', ''copy'', ''/home/u/Documents'', ''gdrive:Backup0RG'', ''--fast-list'',
       ''--backup-dir'', ''gdrive:V/2024-01-02'', ''--dry-run'']
   \<and> int_of_digits (take 4 (strftime_Ymd \<lparr>year = 2024, month = 1, day = 2\<rparr>)) = 2024
   \<and> ''--backup-dir'' \<notin> set (drop 5 (build_cmd ''/usr/bin/rclone'' (child home_u ''Documents'') ''gdrive''
      \<lparr>dest = ''Backup0RG'', use_versions = False, versions_base = ''V'',
       dry_run = True, show_progress = True\<rparr> \<lparr>year = 2024, month = 1, day = 2\<rparr>))"
  using
    backup_dir_target [of "\<lparr>dest = ''Backup0RG'', use_versions = True, versions_base = ''V'',
       dry_run = True, show_progress = False\<rparr>" "''/usr/bin/rclone''" "child home_u ''Documents''"
       "''gdrive''" "\<lparr>year = 2024, month = 1, day = 2\<rparr>"]
    backup_dir_target [of "\<lparr>dest = ''Backup0RG'', use_versions = False, versions_base = ''V'',
       dry_run = True, show_progress = True\<rparr>" "''/usr/bin/rclone''" "child home_u ''Documents''"
       "''gdrive''" "\<lparr>year = 2024, month = 1, day = 2\<rparr>"]
  by (simp add: str_of_path_def child_def home_u_def strftime_Ymd_def digit_char_def)

text \<open>
  C3. Whatever the parameters, the second word of the command is the verb \<^verbatim>\<open>copy\<close> (so
  not \<^verbatim>\<open>sync\<close>), the five leading words are the program, the verb, the source, the
  destination and the fast-listing flag, and with a dry run the dry-run flag is among the
  words that follow.
\<close>

theorem copy_mode_always:
  "build_cmd rclone src remote ps today ! 1 = ''copy''
   \<and> build_cmd rclone src remote ps today ! 1 \<noteq> ''sync''
   \<and> take 5 (build_cmd rclone src remote ps today) =
        [rclone, ''copy'', str_of_path src, remote @ '':'' @ dest ps, ''--fast-list'']
   \<and> ''--fast-list'' \<in> set (build_cmd rclone src remote ps today)
   \<and> (dry_run ps \<longrightarrow> ''--dry-run'' \<in> set (drop 5 (build_cmd rclone src remote ps today)))"
  by (simp add: build_cmd_def)

theorem copy_mode_always_witness:
  "build_cmd ''/usr/bin/rclone'' (child home_u ''Documents'') ''gdrive''
      \<lparr>dest = ''Backup0RG'', use_versions = True, versions_base = ''V'',
       dry_run = True, show_progress = False\<rparr> \<lparr>year = 2024, month = 1, day = 2\<rparr> ! 1 = ''copy''
   \<and> ''--dry-run'' \<in> set (drop 5 (build_cmd ''/usr/bin/rclone'' (child home_u ''Documents'') ''gdrive''
      \<lparr>dest = ''Backup0RG'', use_versions = True, versions_base = ''V'',
       dry_run = True, show_progress = False\<rparr> \<lparr>year = 2024, month = 1, day = 2\<rparr>))"
  using
    copy_mode_always [of "''/usr/bin/rclone''" "child home_u ''Documents''" "''gdrive''"
      "\<lparr>dest = ''Backup0RG'', use_versions = True, versions_base = ''V'',
       dry_run = True, show_progress = False\<rparr>" "\<lparr>year = 2024, month = 1, day = 2\<rparr>"]
  by simp

subsection \<open>The folder browser\<close>

lemma name_child: "name (child p n) = n"
  by (simp add: name_def child_def)



lemma isdigit_no_command:
  assumes "isdigit s"
  shows "s \<notin> set help_tokens" and "s \<notin> set quit_tokens" and "s \<noteq> ''u''" and "s \<noteq> ''b''"
  using assms
  by (auto simp: isdigit_def is_digit_def help_tokens_def quit_tokens_def)

lemma child_parent_name: "parent p \<noteq> p \<Longrightarrow> child (parent p) (name p) = p"
  by (cases "parts p = []") (simp_all add: parent_def child_def name_def)

lemma list_subfolders_children:
  "c \<in> set (list_subfolders e p) \<Longrightarrow> c = child p (name c)"
  by (auto simp: list_subfolders_def name_child split: option.splits if_splits)

lemma folder_browser_ascend:
  "lower (strip l) = ''u'' \<Longrightarrow>
     folder_browser e cur (l # ls) =
       folder_browser e (if parent cur \<noteq> cur then parent cur else cur) ls"
  by (simp add: help_tokens_def quit_tokens_def)

lemma folder_browser_descend:
  assumes "isdigit (lower (strip l))"
    and "1 \<le> int_of_digits (lower (strip l))"
    and "int_of_digits (lower (strip l)) \<le> length (list_subfolders e cur)"
  shows "folder_browser e cur (l # ls) =
     folder_browser e (list_subfolders e cur ! (int_of_digits (lower (strip l)) - 1)) ls"
  using assms isdigit_no_command [OF assms(1)]
  by simp

text \<open>
  C6. From a directory that is not its own parent, the command \<^verbatim>\<open>u\<close> followed by the
  number of a listed subfolder that has the name of the directory left brings the
  browser back to that directory: the browser goes on with the remaining lines as if the
  two commands had not been typed. The listing is read from one and the same filesystem.
\<close>

theorem ascend_then_descend:
  assumes "lower (strip l1) = ''u''" and "parent cur \<noteq> cur"
    and "isdigit (lower (strip l2))"
    and "1 \<le> int_of_digits (lower (strip l2))"
    and "int_of_digits (lower (strip l2)) \<le> length (list_subfolders e (parent cur))"
    and "name (list_subfolders e (parent cur) ! (int_of_digits (lower (strip l2)) - 1)) = name cur"
  shows "folder_browser e cur (l1 # l2 # rest) = folder_browser e cur rest"
proof -
  let ?subs = "list_subfolders e (parent cur)"
  let ?c = "?subs ! (int_of_digits (lower (strip l2)) - 1)"
  from assms(4,5) have "?c \<in> set ?subs"
    by simp
  then have "?c = child (parent cur) (name ?c)"
    by (rule list_subfolders_children)
  with assms(2,6) have same: "?c = cur"
    by (simp add: child_parent_name)
  have "folder_browser e cur (l1 # l2 # rest) = folder_browser e (parent cur) (l2 # rest)"
    using assms(2) by (simp only: folder_browser_ascend [OF assms(1)] if_True simp_thms)
  also have "\<dots> = folder_browser e ?c rest"
    using assms(3,4,5) by (rule folder_browser_descend)
  finally show ?thesis
    by (simp only: same)
qed

theorem ascend_then_descend_witness:
  "folder_browser (demo_env []) (child (child home_u ''Documents'') ''Photos'') ['' U'', ''2'', ''b'']
     = folder_browser (demo_env []) (child (child home_u ''Documents'') ''Photos'') [''b'']
   \<and> folder_browser (demo_env []) (child (child home_u ''Documents'') ''Photos'') ['' U'', ''2'', ''b'']
     = (Inr (Some (child (child home_u ''Documents'') ''Photos'')), [])"
proof -
  let ?photos = "child (child home_u ''Documents'') ''Photos''"
  have a: "lower (strip '' U'') = ''u''" "isdigit (lower (strip ''2''))"
    "1 \<le> int_of_digits (lower (strip ''2''))" "int_of_digits (lower (strip ''2'')) = 2"
    by code_simp+
  have p: "parent ?photos \<noteq> ?photos"
    by (simp add: parent_def child_def home_u_def)
  have l: "list_subfolders (demo_env []) (parent ?photos)
      = [child (child home_u ''Documents'') ''archive'', ?photos]"
    by code_simp
  have n: "name (list_subfolders (demo_env []) (parent ?photos) ! (int_of_digits (lower (strip ''2'')) - 1))
      = name ?photos"
    unfolding l a(4) by simp
  have len: "int_of_digits (lower (strip ''2'')) \<le> length (list_subfolders (demo_env []) (parent ?photos))"
    unfolding l a(4) by simp
  have b: "folder_browser (demo_env []) ?photos [''b''] = (Inr (Some ?photos), [])"
    by code_simp
  from ascend_then_descend [OF a(1) p a(2) a(3) len n, of "[''b'']"] b show ?thesis
    by (simp only: simp_thms)
qed

subsection \<open>The orchestrator\<close>

lemma default_remote_Inr:
  "remotes \<noteq> [] \<Longrightarrow>
     default_remote remotes = Inr (if ''gdrive'' \<in> set remotes then ''gdrive'' else hd remotes)"
  by (cases remotes) (simp_all add: default_remote_def)

text \<open>
  C8. For a list of remotes that is not empty the default remote is \<^verbatim>\<open>gdrive\<close> when the list
  has it, and the first remote of the list otherwise; an answer at the confirmation
  prompt that is no help, quit or no token (the empty answer counts as \<^verbatim>\<open>s\<close>) selects this
  default. For the list \<^verbatim>\<open>gdrive\<close>, \<^verbatim>\<open>work\<close> the default is \<^verbatim>\<open>gdrive\<close>.
\<close>

theorem default_remote_choice:
  "(remotes \<noteq> [] \<longrightarrow>
      default_remote remotes = Inr (if ''gdrive'' \<in> set remotes then ''gdrive'' else hd remotes))
   \<and> (default_remote remotes = Inr d
        \<and> (if lower (strip l) = [] then ''s'' else lower (strip l))
             \<notin> set help_tokens \<union> set quit_tokens \<union> set no_tokens
      \<longrightarrow> select_remote remotes (l # ls) = (Inr d, ls))
   \<and> default_remote [''gdrive'', ''work''] = Inr ''gdrive''
   \<and> default_remote [''work'', ''gdrive''] = Inr ''gdrive''"
  by (cases remotes) (auto simp: default_remote_def select_remote_def Let_def)

theorem default_remote_choice_witness:
  "default_remote [''work'', ''box''] = Inr ''work''
   \<and> select_remote [''work'', ''box''] ['' S '', ''x''] = (Inr ''work'', [''x''])
   \<and> select_remote [''gdrive'', ''work''] ['''', ''x''] = (Inr ''gdrive'', [''x''])"
proof -
  have a: "lower (strip '' S '') = ''s''" "lower (strip []) = []"
    by (simp_all add: lower_def strip_def strip_with_def is_space_def is_upper_def)
  have b: "''s'' \<notin> set help_tokens \<union> set quit_tokens \<union> set no_tokens"
    by (simp add: help_tokens_def quit_tokens_def no_tokens_def)
  from a b default_remote_choice [of "[''work'', ''box'']" "''work''" "'' S ''" "[''x'']"]
    default_remote_choice [of "[''gdrive'', ''work'']" "''gdrive''" "[]" "[''x'']"]
  show ?thesis by simp
qed

lemma on_stdin_eq:
  "f (stdin st) = (r, ls) \<Longrightarrow> on_stdin f st = (r, st\<lparr>stdin := ls\<rparr>)"
  by (simp add: on_stdin_def)

lemma get_remotes_eq:
  "get_remotes e rclone st =
     (remotes_of (run e (trace st) [rclone, ''listremotes'']),
      st\<lparr>trace := trace st @ [[rclone, ''listremotes'']]\<rparr>)"
  by (simp add: get_remotes_def call_proc_def)

text \<open>
  C9. When the program is installed, the listing of the remotes gives none and the user
  answers no to the question about the setup wizard, \<^verbatim>\<open>main\<close> returns (exit status 0), and
  the only subprocess of the run is the listing of the remotes: no transfer command is
  built or run.
\<close>

theorem no_remotes_declined:
  assumes "which_rclone e = Some rclone" and "stdin st = l0 # ls"
    and "remotes_of (run e (trace st) [rclone, ''listremotes'']) = []"
    and "ask_yes_no True ls = (Inr False, ls')"
  shows "main e st = (Return, st\<lparr>stdin := ls', trace := trace st @ [[rclone, ''listremotes'']]\<rparr>)
    \<and> exit_status (fst (main e st)) = 0"
proof -
  have "configure_remotes e rclone (st\<lparr>stdin := ls\<rparr>)
      = (Inl Return, st\<lparr>stdin := ls', trace := trace st @ [[rclone, ''listremotes'']]\<rparr>)"
    using assms(3,4) by (simp add: configure_remotes_def get_remotes_eq on_stdin_def)
  then have "main_steps e st
      = (Inl Return, st\<lparr>stdin := ls', trace := trace st @ [[rclone, ''listremotes'']]\<rparr>)"
    using assms(1,2)
    by (simp add: main_steps_def then_do_def on_stdin_def pause_def require_rclone_def)
  then show ?thesis
    by (simp add: main_def)
qed

theorem no_remotes_declined_witness:
  "main (demo_env [Exited 0 []]) \<lparr>stdin = ['''', ''n''], trace = []\<rparr>
     = (Return, \<lparr>stdin = [], trace = [[''/usr/bin/rclone'', ''listremotes'']]\<rparr>)
   \<and> exit_status (fst (main (demo_env [Exited 0 []]) \<lparr>stdin = ['''', ''n''], trace = []\<rparr>)) = 0"
proof -
  have a: "which_rclone (demo_env [Exited 0 []]) = Some ''/usr/bin/rclone''"
    by (simp add: demo_env_def)
  have b: "remotes_of (run (demo_env [Exited 0 []]) (trace \<lparr>stdin = ['''', ''n''], trace = []\<rparr>)
      [''/usr/bin/rclone'', ''listremotes'']) = []"
    by (simp add: demo_env_def scripted_def remotes_of_def splitlines_def)
  have c: "ask_yes_no True [''n''] = (Inr False, [])"
    by (simp add: lower_def strip_def strip_with_def is_space_def is_upper_def
        help_tokens_def yes_tokens_def no_tokens_def)
  have d: "stdin \<lparr>stdin = ['''', ''n''], trace = []\<rparr> = [] # [''n'']"
    by simp
  from no_remotes_declined [OF a d b c] show ?thesis
    by simp
qed

text \<open>
  What the health check ends with is what \<^verbatim>\<open>main\<close> ends with: \<^verbatim>\<open>main\<close> catches nothing.
\<close>

lemma main_stops_at_health_check:
  assumes "which_rclone e = Some rclone" and "stdin st = l0 # ls0"
    and "configure_remotes e rclone (st\<lparr>stdin := ls0\<rparr>) = (Inr remotes, st1)"
    and "on_stdin (select_remote remotes) st1 = (Inr remote, st2)"
    and "remote_ok_or_fix e rclone remote st2 = (Inl s, st3)"
  shows "main e st = (s, st3)"
  using assms
  by (simp add: main_def main_steps_def then_do_def on_stdin_eq pause_def require_rclone_def)

lemma configure_remotes_nonempty:
  "configure_remotes e rclone st = (Inr remotes, st') \<Longrightarrow> remotes \<noteq> []"
  by (auto simp: configure_remotes_def get_remotes_eq on_stdin_def call_proc_def
      split: if_splits prod.splits sum.splits bool.splits proc.splits)

text \<open>
  C10. When the run has reached the prompt that confirms the remote, a help token and the
  line that the pause of the help screen takes make \<^verbatim>\<open>main\<close> return, with exit status 0:
  the prompt is not shown again, and no subprocess is started after those of the
  configuration. The same holds at the last confirmation: a help token and the line of the
  pause make \<^verbatim>\<open>main\<close> return without running the transfer command. In both cases the lines
  that follow are not read.
\<close>

theorem help_at_confirmation_returns:
  "(which_rclone e = Some rclone \<and> stdin st = l0 # ls0
      \<and> configure_remotes e rclone (st\<lparr>stdin := ls0\<rparr>) = (Inr remotes, st1)
      \<and> stdin st1 = l # p # ls \<and> lower (strip l) \<in> set help_tokens
    \<longrightarrow> main e st = (Return, st1\<lparr>stdin := ls\<rparr>))
   \<and> (which_rclone e = Some rclone \<and> stdin st = l0 # ls0
      \<and> configure_remotes e rclone (st\<lparr>stdin := ls0\<rparr>) = (Inr remotes, st1)
      \<and> on_stdin (select_remote remotes) st1 = (Inr remote, st2)
      \<and> remote_ok_or_fix e rclone remote st2 = (Inr (), st3)
      \<and> on_stdin (choose_source_folder e) st3 = (Inr (Some src), st4)
      \<and> on_stdin collect_params st4 = (Inr ps, st5)
      \<and> stdin st5 = l # p # ls \<and> lower (strip l) \<in> set help_tokens
    \<longrightarrow> main e st = (Return, st5\<lparr>stdin := ls\<rparr>))
   \<and> (stdin st = l # p # ls \<and> lower (strip l) \<in> set help_tokens
    \<longrightarrow> confirm_and_execute e cmd st = (Return, st\<lparr>stdin := ls\<rparr>))
   \<and> exit_status Return = 0"
proof (intro conjI impI)
  have confirm: "confirm_and_execute e c s = (Return, s\<lparr>stdin := ls\<rparr>)"
    if "stdin s = l # p # ls" "lower (strip l) \<in> set help_tokens" for c s
    using that
    by (auto simp: confirm_and_execute_def show_help_def pause_def help_tokens_def)
  {
    assume "stdin st = l # p # ls \<and> lower (strip l) \<in> set help_tokens"
    then show "confirm_and_execute e cmd st = (Return, st\<lparr>stdin := ls\<rparr>)"
      by (simp add: confirm)
  }
  {
    assume a: "which_rclone e = Some rclone \<and> stdin st = l0 # ls0
      \<and> configure_remotes e rclone (st\<lparr>stdin := ls0\<rparr>) = (Inr remotes, st1)
      \<and> on_stdin (select_remote remotes) st1 = (Inr remote, st2)
      \<and> remote_ok_or_fix e rclone remote st2 = (Inr (), st3)
      \<and> on_stdin (choose_source_folder e) st3 = (Inr (Some src), st4)
      \<and> on_stdin collect_params st4 = (Inr ps, st5)
      \<and> stdin st5 = l # p # ls \<and> lower (strip l) \<in> set help_tokens"
    then have "confirm_and_execute e (build_cmd rclone src remote ps (now e)) st5
        = (Return, st5\<lparr>stdin := ls\<rparr>)"
      by (simp add: confirm)
    with a have "main_steps e st = (Inl Return, st5\<lparr>stdin := ls\<rparr>)"
      by (simp add: main_steps_def then_do_def on_stdin_eq pause_def require_rclone_def)
    then show "main e st = (Return, st5\<lparr>stdin := ls\<rparr>)"
      by (simp add: main_def)
  }
  {
    assume a: "which_rclone e = Some rclone \<and> stdin st = l0 # ls0
      \<and> configure_remotes e rclone (st\<lparr>stdin := ls0\<rparr>) = (Inr remotes, st1)
      \<and> stdin st1 = l # p # ls \<and> lower (strip l) \<in> set help_tokens"
    then have "remotes \<noteq> []"
      by (auto dest: configure_remotes_nonempty)
    then have "default_remote remotes
        = Inr (if ''gdrive'' \<in> set remotes then ''gdrive'' else hd remotes)"
      by (rule default_remote_Inr)
    with a have "select_remote remotes (l # p # ls) = (Inl Return, ls)"
      by (auto simp: select_remote_def show_help_def pause_def help_tokens_def)
    with a have "on_stdin (select_remote remotes) st1 = (Inl Return, st1\<lparr>stdin := ls\<rparr>)"
      by (simp add: on_stdin_eq)
    with a have "main_steps e st = (Inl Return, st1\<lparr>stdin := ls\<rparr>)"
      by (simp add: main_steps_def then_do_def on_stdin_eq pause_def require_rclone_def)
    then show "main e st = (Return, st1\<lparr>stdin := ls\<rparr>)"
      by (simp add: main_def)
  }
qed simp

theorem help_at_confirmation_returns_witness:
  "main demo_run_env \<lparr>stdin = ['''', ''h'', '''', ''x''], trace = []\<rparr>
     = (Return, \<lparr>stdin = [''x''], trace = [[''/usr/bin/rclone'', ''listremotes'']]\<rparr>)
   \<and> main demo_run_env
       \<lparr>stdin = ['''', '''', '''', ''2'', ''b'', '''', ''n'', '''', '''', ''?'', '''', ''x''], trace = []\<rparr>
     = (Return, \<lparr>stdin = [''x''],
          trace = [[''/usr/bin/rclone'', ''listremotes''], [''/usr/bin/rclone'', ''lsd'', ''gdrive:'']]\<rparr>)
   \<and> confirm_and_execute demo_run_env [''/usr/bin/rclone'', ''copy'']
       \<lparr>stdin = [''Help'', '''', ''x''], trace = []\<rparr> = (Return, \<lparr>stdin = [''x''], trace = []\<rparr>)"
proof -
  let ?r = "''/usr/bin/rclone''"
  let ?photos = "\<lparr>root = ''/'', parts = [''home'', ''u'', ''Documents'', ''Photos'']\<rparr>"
  let ?ps = "\<lparr>dest = ''Backup0RG'', use_versions = False, versions_base = ''Backup0RG_Versiones'',
       dry_run = True, show_progress = True\<rparr>"
  let ?tr1 = "[[?r, ''listremotes'']]"
  let ?tr2 = "[[?r, ''listremotes''], [?r, ''lsd'', ''gdrive:'']]"
  have w: "which_rclone demo_run_env = Some ?r"
    by (simp add: demo_run_env_def demo_env_def)
  have h: "lower (strip ''h'') \<in> set help_tokens" "lower (strip ''?'') \<in> set help_tokens"
    "lower (strip ''Help'') \<in> set help_tokens"
    by (simp_all add: lower_def strip_def strip_with_def is_space_def is_upper_def help_tokens_def)
  have c0: "configure_remotes demo_run_env ?r
      (\<lparr>stdin = ['''', ''h'', '''', ''x''], trace = []\<rparr>\<lparr>stdin := [''h'', '''', ''x'']\<rparr>)
      = (Inr [''gdrive''], \<lparr>stdin = [''h'', '''', ''x''], trace = ?tr1\<rparr>)"
    by code_simp
  have c1: "configure_remotes demo_run_env ?r
      (\<lparr>stdin = ['''', '''', '''', ''2'', ''b'', '''', ''n'', '''', '''', ''?'', '''', ''x''], trace = []\<rparr>
        \<lparr>stdin := ['''', '''', ''2'', ''b'', '''', ''n'', '''', '''', ''?'', '''', ''x'']\<rparr>)
      = (Inr [''gdrive''],
         \<lparr>stdin = ['''', '''', ''2'', ''b'', '''', ''n'', '''', '''', ''?'', '''', ''x''], trace = ?tr1\<rparr>)"
    by code_simp
  have c2: "on_stdin (select_remote [''gdrive''])
        \<lparr>stdin = ['''', '''', ''2'', ''b'', '''', ''n'', '''', '''', ''?'', '''', ''x''], trace = ?tr1\<rparr>
      = (Inr ''gdrive'', \<lparr>stdin = ['''', ''2'', ''b'', '''', ''n'', '''', '''', ''?'', '''', ''x''], trace = ?tr1\<rparr>)"
    by code_simp
  have c3: "remote_ok_or_fix demo_run_env ?r ''gdrive''
        \<lparr>stdin = ['''', ''2'', ''b'', '''', ''n'', '''', '''', ''?'', '''', ''x''], trace = ?tr1\<rparr>
      = (Inr (), \<lparr>stdin = ['''', ''2'', ''b'', '''', ''n'', '''', '''', ''?'', '''', ''x''], trace = ?tr2\<rparr>)"
    by code_simp
  have c4: "on_stdin (choose_source_folder demo_run_env)
        \<lparr>stdin = ['''', ''2'', ''b'', '''', ''n'', '''', '''', ''?'', '''', ''x''], trace = ?tr2\<rparr>
      = (Inr (Some ?photos), \<lparr>stdin = ['''', ''n'', '''', '''', ''?'', '''', ''x''], trace = ?tr2\<rparr>)"
    by code_simp
  have c5: "on_stdin collect_params \<lparr>stdin = ['''', ''n'', '''', '''', ''?'', '''', ''x''], trace = ?tr2\<rparr>
      = (Inr ?ps, \<lparr>stdin = [''?'', '''', ''x''], trace = ?tr2\<rparr>)"
    by code_simp
  from w h c0 c1 c2 c3 c4 c5
    help_at_confirmation_returns [where e = demo_run_env and rclone = ?r
      and st = "\<lparr>stdin = ['''', ''h'', '''', ''x''], trace = []\<rparr>"
      and ?l0.0 = "''''" and ?ls0.0 = "[''h'', '''', ''x'']" and remotes = "[''gdrive'']"
      and ?st1.0 = "\<lparr>stdin = [''h'', '''', ''x''], trace = ?tr1\<rparr>"
      and l = "''h''" and p = "''''" and ls = "[''x'']"]
    help_at_confirmation_returns [where e = demo_run_env and rclone = ?r
      and st = "\<lparr>stdin = ['''', '''', '''', ''2'', ''b'', '''', ''n'', '''', '''', ''?'', '''', ''x''], trace = []\<rparr>"
      and l = "''?''" and p = "''''" and ls = "[''x'']" and ?l0.0 = "''''"
      and ?ls0.0 = "['''', '''', ''2'', ''b'', '''', ''n'', '''', '''', ''?'', '''', ''x'']"
      and remotes = "[''gdrive'']"
      and ?st1.0 = "\<lparr>stdin = ['''', '''', ''2'', ''b'', '''', ''n'', '''', '''', ''?'', '''', ''x''], trace = ?tr1\<rparr>"
      and remote = "''gdrive''"
      and ?st2.0 = "\<lparr>stdin = ['''', ''2'', ''b'', '''', ''n'', '''', '''', ''?'', '''', ''x''], trace = ?tr1\<rparr>"
      and ?st3.0 = "\<lparr>stdin = ['''', ''2'', ''b'', '''', ''n'', '''', '''', ''?'', '''', ''x''], trace = ?tr2\<rparr>"
      and src = ?photos
      and ?st4.0 = "\<lparr>stdin = ['''', ''n'', '''', '''', ''?'', '''', ''x''], trace = ?tr2\<rparr>"
      and ps = ?ps
      and ?st5.0 = "\<lparr>stdin = [''?'', '''', ''x''], trace = ?tr2\<rparr>"]
    help_at_confirmation_returns [where e = demo_run_env and cmd = "[?r, ''copy'']"
      and st = "\<lparr>stdin = [''Help'', '''', ''x''], trace = []\<rparr>"
      and l = "''Help''" and p = "''''" and ls = "[''x'']"]
  show ?thesis
    by simp
qed

text \<open>
  The command that is built is the command that is run: after an answer at the last
  confirmation that is no help, no and quit token, the transfer command is the next entry
  of the trace.
\<close>

lemma confirm_and_execute_runs_cmd:
  assumes "stdin st = l # ls"
    and "(if lower (strip l) = [] then ''s'' else lower (strip l))
           \<notin> set help_tokens \<union> set [''n'', ''no'', ''q'', ''quit'']"
  shows "trace (snd (confirm_and_execute e cmd st)) = trace st @ [cmd]"
  using assms
  by (auto simp: confirm_and_execute_def call_proc_def on_stdin_def Let_def
      split: proc.splits prod.splits sum.splits)

text \<open>
  The first end-to-end scenario of the specification: one remote \<^verbatim>\<open>gdrive\<close>, the default
  accepted, a healthy remote, the folder \<^verbatim>\<open>Photos\<close> chosen in the browser, the default
  destination, no versioning, a dry run with progress, confirmed.
\<close>

lemma end_to_end_example:
  "main (demo_env [Exited 0 (''gdrive:'' @ [CHR 0x0A]), Exited 0 [], Exited 0 []])
     \<lparr>stdin = ['''', '''', '''', ''2'', ''b'', '''', ''n'', '''', '''', '''', ''''], trace = []\<rparr>
   = (Return,
      \<lparr>stdin = [],
       trace = [[''/usr/bin/rclone'', ''listremotes''],
                [''/usr/bin/rclone'', ''lsd'', ''gdrive:''],
                [''/usr/bin/rclone'', ''copy'', ''/home/u/Documents/Photos'', ''gdrive:Backup0RG'',
                 ''--fast-list'', ''--dry-run'', ''--progress'']]\<rparr>)"
  by code_simp

subsection \<open>The tokens of the prompts\<close>




end
